theory Spec2Isabelle
  imports Main "HOL-Library.FSet"
begin

section \<open>Data model of \<open>calls_group_panel.cpp\<close>\<close>

text \<open>
  The C++ \<open>int\<close> values of this file are row counts, member counts and pixel
  coordinates; \<open>int\<close> has 32 bits. The counts of the invite controller come from
  the server and from containers, and its sums, differences and casts are taken in
  32 bits: \<open>int32\<close> is the value that the two's complement representation keeps,
  which is what the compiled code computes where a sum leaves the range. Pixel
  coordinates are those of widgets on a screen and stay far inside the range. C++
  integer division truncates towards zero.
\<close>

definition int32 :: "int \<Rightarrow> int" where
  "int32 x = (x + 2 ^ 31) mod 2 ^ 32 - 2 ^ 31"

definition cpp_div :: "int \<Rightarrow> int \<Rightarrow> int" where
  "cpp_div a b = (if (a < 0) = (b < 0) then \<bar>a\<bar> div \<bar>b\<bar> else - (\<bar>a\<bar> div \<bar>b\<bar>))"

subsection \<open>Users and peers\<close>

text \<open>
  \<open>UserData\<close> objects are referred to by pointer in the source; a user is identified
  here by its record, which carries the peer id.
\<close>

record UserData =
  user_id :: nat
  isSelf :: bool
  isBot :: bool
  firstName :: string

datatype PeerData = PeerUser UserData | PeerChat nat | PeerChannel nat

fun isUser :: "PeerData \<Rightarrow> bool" where
  "isUser (PeerUser u) = True"
| "isUser _ = False"

fun peer_isSelf :: "PeerData \<Rightarrow> bool" where
  "peer_isSelf (PeerUser u) = isSelf u"
| "peer_isSelf _ = False"

fun asUser :: "PeerData \<Rightarrow> UserData option" where
  "asUser (PeerUser u) = Some u"
| "asUser _ = None"

text \<open>
  The channel as this file reads it: its member count, the user of its session,
  the call it currently hosts (\<open>Data::GroupCall\<close>, absent when there is none) and
  the table of its owner that keeps, per call id, the users invited to that call.
\<close>

record DataGroupCall =
  real_id :: nat
  participants :: "UserData list"
  real_fullCount :: int

record ChannelData =
  membersCount :: int
  session_user :: UserData
  canManageCall :: bool
  channel_call :: "DataGroupCall option"
  owner_invited :: "(nat \<times> UserData fset) list"

text \<open>Modelled from the spec: \<open>Data::Session::invitedToCallUsers\<close>, the set stored for
  the call id, empty when the table has no entry for it.\<close>

definition invitedToCallUsers :: "ChannelData \<Rightarrow> nat \<Rightarrow> UserData fset" where
  "invitedToCallUsers ch i = (case map_of (owner_invited ch) i of None \<Rightarrow> {||} | Some us \<Rightarrow> us)"

subsection \<open>Rows and the list delegate\<close>

text \<open>
  \<open>PeerListRow\<close> and the delegate of the list box are declared outside this file.
  A fresh row is active and unchecked; the delegate is represented by what the
  controller reads from it (the two row counts) and writes to it (the two titles).
  The title is a reactive text bound to a language key (\<open>tr::lng_...()\<close>), kept
  here as the key itself.
  \<open>titleUpdates\<close> counts the calls of \<open>peerListSetAdditionalTitle\<close>, so that a
  title refresh can be observed.
\<close>

datatype RowState = RowActive | RowDisabled | DisabledChecked

record PeerListRow =
  peer :: PeerData
  disabledState :: RowState
  checked :: bool

definition PeerListRow_new :: "UserData \<Rightarrow> PeerListRow" where
  "PeerListRow_new u = \<lparr>peer = PeerUser u, disabledState = RowActive, checked = False\<rparr>"

datatype Phrase =
    Lng_group_call_invite_title
  | Lng_group_call_title

record PeerListDelegate =
  peerListSelectedRowsCount :: nat
  peerListFullRowsCount :: nat
  peerListTitle :: "Phrase option"
  peerListAdditionalTitle :: string
  titleUpdates :: nat

subsection \<open>Decimal text of an integer\<close>

text \<open>
  \<open>QString::arg(int)\<close> inserts the decimal representation of its argument.
\<close>

definition digit_char :: "nat \<Rightarrow> char" where
  "digit_char d = ''0123456789'' ! d"

fun number_nat :: "nat \<Rightarrow> string" where
  "number_nat n = (if n < 10 then [digit_char n] else number_nat (n div 10) @ [digit_char (n mod 10)])"

declare number_nat.simps [simp del]

definition QString_number :: "int \<Rightarrow> string" where
  "QString_number i = (if i < 0 then CHR ''-'' # number_nat (nat (- i)) else number_nat (nat i))"

subsection \<open>Place markers\<close>

text \<open>
  \<open>QString::arg\<close> replaces every occurrence of the lowest-numbered place marker of
  the string, \<open>%1\<close> to \<open>%99\<close>, by its argument, and returns the string as it is
  when it has no marker. A marker is a percent sign followed by one or two digits; the
  \<open>L\<close> flag of a marker is not modelled, the format string of this file has none.
\<close>

definition digitValue :: "char \<Rightarrow> nat option" where
  "digitValue c =
     (let n = (of_char c :: nat) in if 48 \<le> n \<and> n \<le> 57 then Some (n - 48) else None)"

fun place_marker :: "string \<Rightarrow> (nat \<times> string) option" where
  "place_marker [] = None"
| "place_marker (c # cs) =
     (if c \<noteq> CHR ''%'' then None
      else (case cs of
              [] \<Rightarrow> None
            | d1 # r1 \<Rightarrow>
                (case digitValue d1 of
                   None \<Rightarrow> None
                 | Some v1 \<Rightarrow>
                     (case r1 of
                        [] \<Rightarrow> Some (v1, [])
                      | d2 # r2 \<Rightarrow>
                          (case digitValue d2 of
                             None \<Rightarrow> Some (v1, r1)
                           | Some v2 \<Rightarrow> Some (10 * v1 + v2, r2))))))"

function lowest_marker :: "string \<Rightarrow> nat option" where
  "lowest_marker [] = None"
| "lowest_marker (c # cs) =
     (case place_marker (c # cs) of
        None \<Rightarrow> lowest_marker cs
      | Some (k, rest) \<Rightarrow>
          (case lowest_marker rest of None \<Rightarrow> Some k | Some m \<Rightarrow> Some (min k m)))"
  by pat_completeness auto
termination
  by (relation "measure length") (auto split: if_splits list.splits option.splits)

function replace_marker :: "nat \<Rightarrow> string \<Rightarrow> string \<Rightarrow> string" where
  "replace_marker k t [] = []"
| "replace_marker k t (c # cs) =
     (case place_marker (c # cs) of
        None \<Rightarrow> c # replace_marker k t cs
      | Some (n, rest) \<Rightarrow>
          (if n = k then t else take (Suc (length cs) - length rest) (c # cs))
          @ replace_marker k t rest)"
  by pat_completeness auto
termination
  by (relation "measure (\<lambda>(k, t, s). length s)")
    (auto split: if_splits list.splits option.splits)

declare place_marker.simps [simp del]

definition QString_arg :: "string \<Rightarrow> int \<Rightarrow> string" where
  "QString_arg s i =
     (case lowest_marker s of
        None \<Rightarrow> s
      | Some k \<Rightarrow> replace_marker k (QString_number i) s)"

section \<open>InviteController\<close>

record InviteController =
  channel :: ChannelData
  alreadyIn :: "UserData fset"
  fullInCount :: int
  skippedUsers :: "UserData fset"
  delegate :: PeerListDelegate

definition InviteController_new ::
  "ChannelData \<Rightarrow> UserData fset \<Rightarrow> int \<Rightarrow> PeerListDelegate \<Rightarrow> InviteController" where
  "InviteController_new ch already fullIn d =
     \<lparr>channel = ch,
      alreadyIn = already,
      fullInCount = max fullIn (int32 (int (fcard already))),
      skippedUsers = {|session_user ch|},
      delegate = d\<rparr>"

definition alreadyInCount :: "InviteController \<Rightarrow> int" where
  "alreadyInCount c = max (fullInCount c) (int32 (int (fcard (alreadyIn c))))"

definition isAlreadyIn :: "InviteController \<Rightarrow> UserData \<Rightarrow> bool" where
  "isAlreadyIn c user = (user |\<in>| alreadyIn c)"

definition fullCount :: "InviteController \<Rightarrow> int" where
  "fullCount c = int32 (alreadyInCount c + int (peerListSelectedRowsCount (delegate c)))"

definition inOrInvited :: "InviteController \<Rightarrow> int" where
  "inOrInvited c = int32 (fullCount c - 1)"

definition canBeInvited :: "InviteController \<Rightarrow> int" where
  "canBeInvited c =
     max (max (int (peerListFullRowsCount (delegate c)))
              (int32 (membersCount (channel c) - int32 (int (fcard (skippedUsers c))))))
         (inOrInvited c)"

definition updateTitle :: "InviteController \<Rightarrow> InviteController" where
  "updateTitle c =
     (let additional = (if canBeInvited c \<noteq> 0
                        then QString_arg (QString_arg ''%1 / %2'' (inOrInvited c))
                               (canBeInvited c)
                        else [])
      in c\<lparr>delegate := (delegate c)
            \<lparr>peerListTitle := Some Lng_group_call_invite_title,
             peerListAdditionalTitle := additional,
             titleUpdates := Suc (titleUpdates (delegate c))\<rparr>\<rparr>)"

definition createRow :: "UserData \<Rightarrow> InviteController \<Rightarrow> PeerListRow option \<times> InviteController" where
  "createRow user c =
     (if isSelf user \<or> isBot user then
        (None,
         if user |\<notin>| skippedUsers c
         then updateTitle (c\<lparr>skippedUsers := finsert user (skippedUsers c)\<rparr>)
         else c)
      else
        (let result = PeerListRow_new user
         in (Some (if isAlreadyIn c user
                   then result\<lparr>disabledState := DisabledChecked\<rparr>
                   else result), c)))"

definition itemDeselectedHook :: "PeerData \<Rightarrow> InviteController \<Rightarrow> InviteController" where
  "itemDeselectedHook p c = updateTitle c"

section \<open>The call object\<close>

text \<open>
  \<open>GroupCall\<close> is declared outside this file. The panel and the boxes reach it through
  a \<open>base::weak_ptr\<close>: the handle below has no target once the call is destroyed, and
  logs every operation that is invoked through it.
\<close>

datatype MuteState = Active | Muted | ForceMuted

datatype CallOp = Discard | Hangup | InviteUsers "UserData list" | SetMuted MuteState

record GroupCall =
  call_id :: nat
  muted :: MuteState

record CallHandle =
  target :: "GroupCall option"
  invoked :: "CallOp list"

text \<open>
  The result of \<open>GroupCall::inviteUsers\<close> is a \<open>std::variant<int, not_null<UserData*>>\<close>;
  \<open>Valueless\<close> is the state of a variant that holds neither alternative.
\<close>

datatype InviteResult = Count int | User UserData | Valueless

text \<open>Modelled from the spec: the operations of \<open>GroupCall\<close>, which this file only calls.
  \<open>discard\<close>, \<open>hangup\<close> and \<open>setMuted\<close> are recorded in the log of the handle,
  \<open>setMuted\<close> also stores the new state; what \<open>inviteUsers\<close> returns is a parameter.\<close>

definition discard :: "CallHandle \<Rightarrow> CallHandle" where
  "discard h = h\<lparr>invoked := invoked h @ [Discard]\<rparr>"

definition hangup :: "CallHandle \<Rightarrow> CallHandle" where
  "hangup h = h\<lparr>invoked := invoked h @ [Hangup]\<rparr>"

definition setMuted :: "MuteState \<Rightarrow> CallHandle \<Rightarrow> CallHandle" where
  "setMuted m h =
     h\<lparr>target := map_option (\<lambda>c. c\<lparr>muted := m\<rparr>) (target h),
       invoked := invoked h @ [SetMuted m]\<rparr>"

definition inviteUsers ::
  "(UserData list \<Rightarrow> InviteResult) \<Rightarrow> UserData list \<Rightarrow> CallHandle \<Rightarrow> InviteResult \<times> CallHandle" where
  "inviteUsers answer users h = (answer users, h\<lparr>invoked := invoked h @ [InviteUsers users]\<rparr>)"

subsection \<open>Submitting the selection\<close>

text \<open>
  \<open>Expects\<close> and \<open>Unexpected\<close> terminate the program; they are the two fatal
  results. Constructing \<open>not_null\<close> from \<open>asUser()\<close> asserts as well.
\<close>

datatype Fatal = ExpectsFailed | UnexpectedResult

definition selected_user :: "PeerData \<Rightarrow> Fatal + UserData" where
  "selected_user p =
     (if \<not> isUser p then Inl ExpectsFailed
      else if peer_isSelf p then Inl ExpectsFailed
      else (case asUser p of None \<Rightarrow> Inl ExpectsFailed | Some u \<Rightarrow> Inr u))"

fun selected_users :: "PeerData list \<Rightarrow> Fatal + UserData list" where
  "selected_users [] = Inr []"
| "selected_users (p # ps) =
     (case selected_user p of
        Inl e \<Rightarrow> Inl e
      | Inr u \<Rightarrow> (case selected_users ps of Inl e \<Rightarrow> Inl e | Inr us \<Rightarrow> Inr (u # us)))"

definition inviteSelectedUsers ::
  "(UserData list \<Rightarrow> InviteResult) \<Rightarrow> PeerData list \<Rightarrow> CallHandle
     \<Rightarrow> Fatal + (InviteResult \<times> CallHandle)" where
  "inviteSelectedUsers answer rows call =
     (case selected_users rows of
        Inl e \<Rightarrow> Inl e
      | Inr users \<Rightarrow> Inr (inviteUsers answer users call))"

section \<open>Boxes\<close>

text \<open>
  The state a box button acts on: the weak handle of the call, whether the box has been
  closed, and the toasts shown so far. A toast is kept as its language key with the
  value substituted into it.
\<close>

datatype TextWithEntities = Bold string

datatype ToastText =
    Lng_group_call_invite_done_user TextWithEntities
  | Lng_group_call_invite_done_many int

record BoxState =
  weak :: CallHandle
  boxClosed :: bool
  toasts :: "ToastText list"

definition closeBox :: "BoxState \<Rightarrow> BoxState" where
  "closeBox b = b\<lparr>boxClosed := True\<rparr>"

definition Toast_Show :: "ToastText \<Rightarrow> BoxState \<Rightarrow> BoxState" where
  "Toast_Show t b = b\<lparr>toasts := toasts b @ [t]\<rparr>"

text \<open>
  The first button of \<open>LeaveGroupCallBox\<close>. The checkbox \<open>discard\<close> exists only when
  the channel can manage the call; its argument is then the current check state.
\<close>

definition LeaveGroupCallBox_leave :: "bool option \<Rightarrow> BoxState \<Rightarrow> BoxState" where
  "LeaveGroupCallBox_leave discard_box b =
     (let discardCall = (case discard_box of None \<Rightarrow> False | Some c \<Rightarrow> c);
          b1 = closeBox b
      in if target (weak b1) = None then b1
         else if discardCall then b1\<lparr>weak := discard (weak b1)\<rparr>
         else b1\<lparr>weak := hangup (weak b1)\<rparr>)"

definition LeaveGroupCallBox_cancel :: "BoxState \<Rightarrow> BoxState" where
  "LeaveGroupCallBox_cancel b = closeBox b"

text \<open>The invite button that \<open>GroupPanel::addMembers\<close> adds to the box.\<close>

definition invite_button ::
  "(UserData list \<Rightarrow> InviteResult) \<Rightarrow> PeerData list \<Rightarrow> BoxState \<Rightarrow> Fatal + BoxState" where
  "invite_button answer rows b =
     (case target (weak b) of
        None \<Rightarrow> Inr (closeBox b)
      | Some call \<Rightarrow>
          (case inviteSelectedUsers answer rows (weak b) of
             Inl e \<Rightarrow> Inl e
           | Inr (result, h) \<Rightarrow>
               (case result of
                  User user \<Rightarrow>
                    Inr (closeBox (Toast_Show
                      (Lng_group_call_invite_done_user (Bold (firstName user)))
                      (b\<lparr>weak := h\<rparr>)))
                | Count count \<Rightarrow>
                    (if count > 0
                     then Inr (closeBox (Toast_Show
                            (Lng_group_call_invite_done_many count) (b\<lparr>weak := h\<rparr>)))
                     else Inr (closeBox (b\<lparr>weak := h\<rparr>)))
                | Valueless \<Rightarrow> Inl UnexpectedResult)))"

section \<open>GroupPanel\<close>

text \<open>
  The platform is fixed when the file is compiled (\<open>Q_OS_WIN\<close>, \<open>Q_OS_MAC\<close> or
  neither). Style constants and \<open>tr::lng_group_call_title(tr::now)\<close>, the title in the
  current language, are read-only inputs.
  \<open>groupCallHeaderLabel\<close> is the label that
  \<open>_title.create(widget(), tr::lng_group_call_title(), st::groupCallHeaderLabel)\<close>
  builds; a label has a natural width and a height given by its text and style, and a
  geometry that \<open>resizeToWidth\<close> and \<open>moveToLeft\<close> set. The position kept for
  a label is the one handed to \<open>moveToLeft\<close>: the distance from the left edge of the
  panel and from its top.
\<close>

datatype Platform = Q_OS_WIN | Q_OS_MAC | Q_OS_OTHER

record QRect =
  rect_x :: int
  rect_y :: int
  rect_width :: int
  rect_height :: int

record FlatLabel =
  naturalWidth :: int
  label_height :: int
  label_width :: int
  label_left :: int
  label_top :: int

definition resizeToWidth :: "int \<Rightarrow> FlatLabel \<Rightarrow> FlatLabel" where
  "resizeToWidth w l = l\<lparr>label_width := w\<rparr>"

definition moveToLeft :: "int \<Rightarrow> int \<Rightarrow> FlatLabel \<Rightarrow> FlatLabel" where
  "moveToLeft x y l = l\<lparr>label_left := x, label_top := y\<rparr>"

record Style =
  callTitleButton_height :: int
  groupCallMembersMargin_top :: int

datatype MouseButton = LeftButton | RightButton | MiddleButton

record GroupPanel =
  platform :: Platform
  style :: Style
  lng_group_call_title_now :: string
  groupCallHeaderLabel :: FlatLabel
  panel_call :: CallHandle
  panel_channel :: ChannelData
  controls_geometry :: QRect
  widget_width :: int
  title :: "FlatLabel option"
  window_title :: string

definition computeMembersListTop :: "GroupPanel \<Rightarrow> int" where
  "computeMembersListTop p =
     (case platform p of
        Q_OS_WIN \<Rightarrow>
          callTitleButton_height (style p) + cpp_div (groupCallMembersMargin_top (style p)) 2
      | Q_OS_MAC \<Rightarrow> groupCallMembersMargin_top (style p) * 2
      | Q_OS_OTHER \<Rightarrow> groupCallMembersMargin_top (style p))"

definition computeTitleRect :: "GroupPanel \<Rightarrow> QRect option" where
  "computeTitleRect p =
     (case platform p of
        Q_OS_WIN \<Rightarrow>
          Some \<lparr>rect_x = 0, rect_y = 0,
                rect_width = rect_x (controls_geometry p),
                rect_height = rect_height (controls_geometry p)\<rparr>
      | _ \<Rightarrow> None)"

definition initWindow :: "GroupPanel \<Rightarrow> GroupPanel" where
  "initWindow p =
     p\<lparr>window_title := (if computeTitleRect p \<noteq> None then '' ''
                          else lng_group_call_title_now p)\<rparr>"

text \<open>
  The body of \<open>refreshTitle\<close> for a given result of \<open>computeTitleRect()\<close>.
\<close>

definition refreshTitle_at :: "QRect option \<Rightarrow> GroupPanel \<Rightarrow> GroupPanel" where
  "refreshTitle_at rect p =
     (case rect of
        Some titleRect \<Rightarrow>
          (let (t, p1) = (case title p of
                            None \<Rightarrow> (groupCallHeaderLabel p, p\<lparr>window_title := '' ''\<rparr>)
                          | Some l \<Rightarrow> (l, p));
               best = naturalWidth t;
               from = cpp_div (widget_width p1 - best) 2;
               top = cpp_div (computeMembersListTop p1 - label_height t) 2;
               left = rect_x titleRect
           in if from \<ge> left \<and> from + best \<le> left + rect_width titleRect then
                p1\<lparr>title := Some (moveToLeft from top (resizeToWidth best t))\<rparr>
              else if rect_width titleRect < best then
                p1\<lparr>title := Some (moveToLeft left top (resizeToWidth (rect_width titleRect) t))\<rparr>
              else if from < left then
                p1\<lparr>title := Some (moveToLeft left top (resizeToWidth best t))\<rparr>
              else
                p1\<lparr>title := Some (moveToLeft (left + rect_width titleRect - best) top
                                      (resizeToWidth best t))\<rparr>)
      | None \<Rightarrow>
          (case title p of
             Some l \<Rightarrow> p\<lparr>title := None, window_title := lng_group_call_title_now p\<rparr>
           | None \<Rightarrow> p))"

definition refreshTitle :: "GroupPanel \<Rightarrow> GroupPanel" where
  "refreshTitle p = refreshTitle_at (computeTitleRect p) p"

text \<open>The handler of left clicks on the mute button, installed by \<open>initControls\<close>.\<close>

definition mute_clicked :: "MouseButton \<Rightarrow> GroupPanel \<Rightarrow> GroupPanel" where
  "mute_clicked button p =
     (if button = LeftButton then
        (case target (panel_call p) of
           None \<Rightarrow> p
         | Some call \<Rightarrow>
             if muted call \<noteq> ForceMuted
             then p\<lparr>panel_call :=
                    setMuted (if muted call = Active then Muted else Active) (panel_call p)\<rparr>
             else p)
      else p)"

text \<open>
  \<open>addMembers\<close> up to the construction of the controller; \<open>None\<close> is its early return.
  The delegate is the one of the box that will show the controller.
\<close>

definition addMembers :: "GroupPanel \<Rightarrow> PeerListDelegate \<Rightarrow> InviteController option" where
  "addMembers p d =
     (case target (panel_call p) of
        None \<Rightarrow> None
      | Some call \<Rightarrow>
          (case channel_call (panel_channel p) of
             None \<Rightarrow> None
           | Some real \<Rightarrow>
               if real_id real \<noteq> call_id call then None
               else
                 (let invited = invitedToCallUsers (panel_channel p) (real_id real);
                      withParticipants = fold finsert (participants real) invited;
                      already = finsert (session_user (panel_channel p)) withParticipants
                  in Some (InviteController_new (panel_channel p) already
                             (real_fullCount real) d))))"

text \<open>
  The controller after the list has requested rows for the users \<open>us\<close>, in this order,
  and how a user is presented: by a disabled row marked as already in, by a
  selectable row, or not at all and recorded as skipped.
\<close>

definition createRows :: "UserData list \<Rightarrow> InviteController \<Rightarrow> InviteController" where
  "createRows us c = fold (\<lambda>u c'. snd (createRow u c')) us c"

definition shown_disabled :: "InviteController \<Rightarrow> UserData \<Rightarrow> bool" where
  "shown_disabled c u =
     (case fst (createRow u c) of None \<Rightarrow> False | Some row \<Rightarrow> disabledState row = DisabledChecked)"

definition shown_selectable :: "InviteController \<Rightarrow> UserData \<Rightarrow> bool" where
  "shown_selectable c u =
     (case fst (createRow u c) of None \<Rightarrow> False
      | Some row \<Rightarrow> disabledState row = RowActive \<and> \<not> checked row)"

definition skipped :: "InviteController \<Rightarrow> UserData \<Rightarrow> bool" where
  "skipped c u = (u |\<in>| skippedUsers c)"

section \<open>Example values\<close>

definition ex_self :: UserData where
  "ex_self = \<lparr>user_id = 1, isSelf = True, isBot = False, firstName = ''Me''\<rparr>"

definition ex_alice :: UserData where
  "ex_alice = \<lparr>user_id = 2, isSelf = False, isBot = False, firstName = ''Alice''\<rparr>"

definition ex_bot :: UserData where
  "ex_bot = \<lparr>user_id = 3, isSelf = False, isBot = True, firstName = ''Bot''\<rparr>"

definition ex_real :: DataGroupCall where
  "ex_real = \<lparr>real_id = 7, participants = [ex_alice], real_fullCount = 2\<rparr>"

definition ex_channel :: ChannelData where
  "ex_channel =
     \<lparr>membersCount = 12, session_user = ex_self, canManageCall = True,
      channel_call = Some ex_real, owner_invited = []\<rparr>"

definition ex_delegate :: PeerListDelegate where
  "ex_delegate =
     \<lparr>peerListSelectedRowsCount = 2, peerListFullRowsCount = 10,
      peerListTitle = None, peerListAdditionalTitle = [], titleUpdates = 0\<rparr>"

definition ex_controller :: InviteController where
  "ex_controller = InviteController_new ex_channel {|ex_self, ex_alice|} 2 ex_delegate"


definition ex_handle :: CallHandle where
  "ex_handle = \<lparr>target = Some \<lparr>call_id = 7, muted = Active\<rparr>, invoked = []\<rparr>"

definition ex_expired :: CallHandle where
  "ex_expired = \<lparr>target = None, invoked = [Hangup]\<rparr>"

definition ex_box :: BoxState where
  "ex_box = \<lparr>weak = ex_handle, boxClosed = False, toasts = []\<rparr>"

definition ex_box_expired :: BoxState where
  "ex_box_expired = \<lparr>weak = ex_expired, boxClosed = False, toasts = []\<rparr>"

definition ex_panel :: "Platform \<Rightarrow> GroupPanel" where
  "ex_panel os =
     \<lparr>platform = os,
      style = \<lparr>callTitleButton_height = 24, groupCallMembersMargin_top = 16\<rparr>,
      lng_group_call_title_now = ''Voice Chat'',
      groupCallHeaderLabel =
        \<lparr>naturalWidth = 200, label_height = 20, label_width = 0, label_left = 0, label_top = 0\<rparr>,
      panel_call = ex_handle,
      panel_channel = ex_channel,
      controls_geometry = \<lparr>rect_x = 150, rect_y = 0, rect_width = 90, rect_height = 24\<rparr>,
      widget_width = 800,
      title = None,
      window_title = []\<rparr>"

text \<open>
  An answer of \<open>inviteUsers\<close> for the examples: the user when one user was
  invited, the number of users otherwise.
\<close>

definition ex_answer :: "UserData list \<Rightarrow> InviteResult" where
  "ex_answer us = (case us of [u] \<Rightarrow> User u | _ \<Rightarrow> Count (int (length us)))"

definition ex_labelled_panel :: GroupPanel where
  "ex_labelled_panel =
     (ex_panel Q_OS_MAC)\<lparr>title := Some (groupCallHeaderLabel (ex_panel Q_OS_MAC)),
                          window_title := '' ''\<rparr>"

section \<open>The counter of the invite box\<close>

lemma digit_char_not_percent:
  assumes "d < 10"
  shows "digit_char d \<noteq> CHR ''%''"
proof -
  from assms have "d \<in> {0, 1, 2, 3, 4, 5, 6, 7, 8, 9}"
    by auto
  then show ?thesis
    by (auto simp: digit_char_def)
qed

lemma number_nat_no_percent: "CHR ''%'' \<notin> set (number_nat n)"
proof (induction n rule: number_nat.induct)
  case (1 n)
  show ?case
  proof (cases "n < 10")
    case True
    then show ?thesis
      using digit_char_not_percent [of n] by (subst number_nat.simps) auto
  next
    case False
    then show ?thesis
      using 1 digit_char_not_percent [of "n mod 10"] by (subst number_nat.simps) auto
  qed
qed

lemma QString_number_no_percent: "CHR ''%'' \<notin> set (QString_number i)"
  by (simp add: QString_number_def number_nat_no_percent)

lemma lowest_marker_plain:
  "CHR ''%'' \<notin> set t \<Longrightarrow> lowest_marker (t @ s) = lowest_marker s"
  by (induction t) (auto simp: place_marker.simps)

lemma replace_marker_plain:
  "CHR ''%'' \<notin> set t \<Longrightarrow> replace_marker k x (t @ s) = t @ replace_marker k x s"
  by (induction t) (auto simp: place_marker.simps)

lemma counter_format:
  "QString_arg (QString_arg ''%1 / %2'' a) b = QString_number a @ '' / '' @ QString_number b"
proof -
  have first: "QString_arg ''%1 / %2'' a = QString_number a @ '' / %2''"
    by (simp add: QString_arg_def digitValue_def place_marker.simps)
  have lowest: "lowest_marker (QString_number a @ '' / %2'') = Some 2"
    by (simp add: lowest_marker_plain QString_number_no_percent digitValue_def
        place_marker.simps)
  have second: "replace_marker 2 t (QString_number a @ '' / %2'')
      = QString_number a @ '' / '' @ t" for t
    by (simp add: replace_marker_plain QString_number_no_percent digitValue_def
        place_marker.simps)
  show ?thesis
    by (subst first) (simp add: QString_arg_def lowest second)
qed

lemma canBeInvited_nonneg: "0 \<le> canBeInvited c"
  by (simp add: canBeInvited_def)

lemma inOrInvited_le_canBeInvited: "inOrInvited c \<le> canBeInvited c"
  by (simp add: canBeInvited_def)







text \<open>
  C9. Whenever \<open>updateTitle\<close> publishes a non-empty counter, it is the text of
  \<open>inOrInvited\<close> and \<open>canBeInvited\<close>, and the denominator \<open>canBeInvited\<close> is neither
  below the numerator \<open>inOrInvited\<close> nor negative.
\<close>

theorem updateTitle_denominator:
  "peerListAdditionalTitle (delegate (updateTitle c)) \<noteq> [] \<Longrightarrow>
     peerListAdditionalTitle (delegate (updateTitle c))
       = QString_number (inOrInvited c) @ '' / '' @ QString_number (canBeInvited c)
     \<and> inOrInvited c \<le> canBeInvited c \<and> 0 \<le> canBeInvited c"
  using canBeInvited_nonneg [of c] inOrInvited_le_canBeInvited [of c]
  by (simp add: updateTitle_def Let_def counter_format split: if_splits)

theorem updateTitle_denominator_witness:
  "peerListAdditionalTitle (delegate (updateTitle ex_controller)) \<noteq> []
   \<and> peerListAdditionalTitle (delegate (updateTitle ex_controller)) = ''3 / 11''
   \<and> inOrInvited ex_controller = 3 \<and> canBeInvited ex_controller = 11
   \<and> inOrInvited ex_controller \<le> canBeInvited ex_controller
   \<and> 0 \<le> canBeInvited ex_controller"
proof -
  have shown: "peerListAdditionalTitle (delegate (updateTitle ex_controller)) = ''3 / 11''"
    by code_simp
  have numerator: "inOrInvited ex_controller = 3"
    by code_simp
  have denominator: "canBeInvited ex_controller = 11"
    by code_simp
  from shown have nonempty: "peerListAdditionalTitle (delegate (updateTitle ex_controller)) \<noteq> []"
    by simp
  from updateTitle_denominator [OF nonempty]
  have "inOrInvited ex_controller \<le> canBeInvited ex_controller \<and> 0 \<le> canBeInvited ex_controller"
    by blast
  with nonempty shown numerator denominator show ?thesis
    by blast
qed

section \<open>Rows of the invite box\<close>

lemma updateTitle_fields [simp]:
  "skippedUsers (updateTitle c) = skippedUsers c"
  "alreadyIn (updateTitle c) = alreadyIn c"
  "titleUpdates (delegate (updateTitle c)) = Suc (titleUpdates (delegate c))"
  by (simp_all add: updateTitle_def Let_def)

lemma createRow_skippedUsers:
  "skippedUsers (snd (createRow u c)) =
     (if isSelf u \<or> isBot u then finsert u (skippedUsers c) else skippedUsers c)"
  by (auto simp: createRow_def Let_def)

lemma createRow_alreadyIn [simp]: "alreadyIn (snd (createRow u c)) = alreadyIn c"
  by (simp add: createRow_def Let_def)

lemma createRows_alreadyIn [simp]: "alreadyIn (createRows us c) = alreadyIn c"
  unfolding createRows_def by (induction us arbitrary: c) simp_all

lemma createRows_skippedUsers:
  "fset (skippedUsers (createRows us c)) =
     fset (skippedUsers c) \<union> {u \<in> set us. isSelf u \<or> isBot u}"
  unfolding createRows_def
  by (induction us arbitrary: c) (auto simp: createRow_skippedUsers)

text \<open>
  C3, as the code has it. For a user that is self or a bot, \<open>createRow\<close> returns no row
  and the user is in the skipped set afterwards; the insertion and the title refresh
  happen exactly when the user was not in the skipped set before, and a repeated call
  changes nothing. The constructor has already put the user of the session into the
  skipped set, so for that user no call inserts or refreshes, not even the first one.
  For every other user the result is a row for that user, disabled and checked exactly
  when the user is in the already-in set, active and unchecked otherwise, and the
  controller is unchanged.
\<close>

theorem createRow_result:
  "(isSelf u \<or> isBot u \<longrightarrow>
      fst (createRow u c) = None
    \<and> skippedUsers (snd (createRow u c)) = finsert u (skippedUsers c)
    \<and> titleUpdates (delegate (snd (createRow u c)))
        = titleUpdates (delegate c) + (if u |\<in>| skippedUsers c then 0 else 1)
    \<and> (if u |\<in>| skippedUsers c then snd (createRow u c) = c
        else snd (createRow u c)
               = updateTitle (c\<lparr>skippedUsers := finsert u (skippedUsers c)\<rparr>))
    \<and> createRow u (snd (createRow u c)) = (None, snd (createRow u c)))
  \<and> (\<not> (isSelf u \<or> isBot u) \<longrightarrow>
      createRow u c =
        (Some \<lparr>peer = PeerUser u,
               disabledState = (if u |\<in>| alreadyIn c then DisabledChecked else RowActive),
               checked = False\<rparr>, c))
  \<and> (isSelf (session_user ch) \<or> isBot (session_user ch) \<longrightarrow>
      createRow (session_user ch) (InviteController_new ch A f d)
        = (None, InviteController_new ch A f d))"
  by (auto simp: createRow_def Let_def PeerListRow_new_def isAlreadyIn_def
      InviteController_new_def finsert_absorb)

theorem createRow_result_witness:
  "(isSelf ex_bot \<or> isBot ex_bot)
   \<and> fst (createRow ex_bot ex_controller) = None
   \<and> skippedUsers (snd (createRow ex_bot ex_controller)) = {|ex_bot, ex_self|}
   \<and> titleUpdates (delegate (snd (createRow ex_bot ex_controller))) = 1
   \<and> createRow ex_bot (snd (createRow ex_bot ex_controller))
       = (None, snd (createRow ex_bot ex_controller))
   \<and> \<not> (isSelf ex_alice \<or> isBot ex_alice)
   \<and> createRow ex_alice ex_controller =
        (Some \<lparr>peer = PeerUser ex_alice, disabledState = DisabledChecked, checked = False\<rparr>,
         ex_controller)
   \<and> createRow ex_self ex_controller = (None, ex_controller)"
proof -
  have bot: "isSelf ex_bot \<or> isBot ex_bot"
    by code_simp
  have alice: "\<not> (isSelf ex_alice \<or> isBot ex_alice)"
    by code_simp
  have self: "isSelf (session_user ex_channel) \<or> isBot (session_user ex_channel)"
    by code_simp
  have me: "session_user ex_channel = ex_self"
    by code_simp
  have fresh: "ex_bot |\<notin>| skippedUsers ex_controller"
    by code_simp
  have old: "skippedUsers ex_controller = {|ex_self|}"
    by code_simp
  have upd: "titleUpdates (delegate ex_controller) = 0"
    by code_simp
  have member: "ex_alice |\<in>| alreadyIn ex_controller"
    by code_simp
  note r1 = createRow_result
    [of ex_bot ex_controller ex_channel "{|ex_self, ex_alice|}" 2 ex_delegate]
  note r2 = createRow_result
    [of ex_alice ex_controller ex_channel "{|ex_self, ex_alice|}" 2 ex_delegate]
  from r1 bot have b1: "fst (createRow ex_bot ex_controller) = None"
    and b2: "skippedUsers (snd (createRow ex_bot ex_controller))
               = finsert ex_bot (skippedUsers ex_controller)"
    and b3: "titleUpdates (delegate (snd (createRow ex_bot ex_controller)))
               = titleUpdates (delegate ex_controller)
                 + (if ex_bot |\<in>| skippedUsers ex_controller then 0 else 1)"
    and b4: "createRow ex_bot (snd (createRow ex_bot ex_controller))
               = (None, snd (createRow ex_bot ex_controller))"
    by blast+
  from b2 old have b2': "skippedUsers (snd (createRow ex_bot ex_controller)) = {|ex_bot, ex_self|}"
    by simp
  from b3 fresh upd have b3': "titleUpdates (delegate (snd (createRow ex_bot ex_controller))) = 1"
    by simp
  from r2 alice member have a: "createRow ex_alice ex_controller =
      (Some \<lparr>peer = PeerUser ex_alice, disabledState = DisabledChecked, checked = False\<rparr>,
       ex_controller)"
    by simp
  from r1 self have "createRow (session_user ex_channel)
        (InviteController_new ex_channel {|ex_self, ex_alice|} 2 ex_delegate)
      = (None, InviteController_new ex_channel {|ex_self, ex_alice|} 2 ex_delegate)"
    by blast
  then have s: "createRow ex_self ex_controller = (None, ex_controller)"
    by (simp only: me flip: ex_controller_def)
  from bot alice b1 b2' b3' b4 a s show ?thesis
    by blast
qed

text \<open>
  The first call of \<open>createRow\<close> for the user of the session, on the controller as
  constructed: the user is self, no row is returned, and the controller, with its
  skipped set and its count of title refreshes, is unchanged.
\<close>

theorem createRow_self_counterexample:
  "isSelf ex_self
   \<and> ex_controller = InviteController_new ex_channel {|ex_self, ex_alice|} 2 ex_delegate
   \<and> session_user ex_channel = ex_self
   \<and> createRow ex_self ex_controller = (None, ex_controller)
   \<and> titleUpdates (delegate (snd (createRow ex_self ex_controller)))
       = titleUpdates (delegate ex_controller)"
  by code_simp

text \<open>
  C5, as the code has it. In the controller that \<open>addMembers\<close> builds, after rows have
  been requested for any users, every user has at most one of the three presentations:
  a disabled row marked as already in, a selectable row, or no row with an entry in the
  skipped set. The already-in set and the skipped set themselves overlap: the user of
  the session is put into the first by \<open>addMembers\<close> and into the second by the
  constructor.
\<close>

theorem presentation_exclusive:
  assumes built: "addMembers p d = Some c0"
    and self: "isSelf (session_user (panel_channel p))"
  shows "(\<forall>u. \<not> (shown_disabled (createRows us c0) u \<and> shown_selectable (createRows us c0) u)
            \<and> \<not> (shown_disabled (createRows us c0) u \<and> skipped (createRows us c0) u)
            \<and> \<not> (shown_selectable (createRows us c0) u \<and> skipped (createRows us c0) u))
       \<and> session_user (panel_channel p) |\<in>| alreadyIn (createRows us c0)
       \<and> session_user (panel_channel p) |\<in>| skippedUsers (createRows us c0)"
proof -
  let ?me = "session_user (panel_channel p)"
  let ?c = "createRows us c0"
  from built obtain A f where c0: "c0 = InviteController_new (panel_channel p) A f d"
    and me_in: "?me |\<in>| A"
    by (auto simp: addMembers_def Let_def split: option.splits if_splits)
  have sk0: "skippedUsers c0 = {|?me|}" and in0: "alreadyIn c0 = A"
    by (simp_all add: c0 InviteController_new_def)
  have sk: "fset (skippedUsers ?c) = {?me} \<union> {u \<in> set us. isSelf u \<or> isBot u}"
    by (simp add: createRows_skippedUsers sk0)
  have norow: "fst (createRow u ?c) = None" if "u |\<in>| skippedUsers ?c" for u
  proof -
    from that sk self have "isSelf u \<or> isBot u"
      by auto
    then show ?thesis
      by (simp add: createRow_def)
  qed
  have rows: "\<not> (shown_disabled ?c u \<and> shown_selectable ?c u)" for u
    by (auto simp: shown_disabled_def shown_selectable_def split: option.splits)
  have "\<not> (shown_disabled ?c u \<and> skipped ?c u)"
    "\<not> (shown_selectable ?c u \<and> skipped ?c u)" for u
    using norow [of u] by (auto simp: shown_disabled_def shown_selectable_def skipped_def)
  moreover have "?me |\<in>| alreadyIn ?c"
    by (simp add: in0 me_in)
  moreover have "?me |\<in>| skippedUsers ?c"
    using sk by auto
  ultimately show ?thesis
    using rows by blast
qed

theorem presentation_exclusive_witness:
  "addMembers (ex_panel Q_OS_WIN) ex_delegate = Some ex_controller
   \<and> isSelf (session_user (panel_channel (ex_panel Q_OS_WIN)))
   \<and> shown_disabled (createRows [ex_self, ex_bot, ex_alice] ex_controller) ex_alice
   \<and> \<not> shown_selectable (createRows [ex_self, ex_bot, ex_alice] ex_controller) ex_alice
   \<and> \<not> skipped (createRows [ex_self, ex_bot, ex_alice] ex_controller) ex_alice
   \<and> skipped (createRows [ex_self, ex_bot, ex_alice] ex_controller) ex_bot
   \<and> \<not> shown_disabled (createRows [ex_self, ex_bot, ex_alice] ex_controller) ex_bot
   \<and> \<not> shown_selectable (createRows [ex_self, ex_bot, ex_alice] ex_controller) ex_bot
   \<and> session_user (panel_channel (ex_panel Q_OS_WIN))
       |\<in>| alreadyIn (createRows [ex_self, ex_bot, ex_alice] ex_controller)
   \<and> session_user (panel_channel (ex_panel Q_OS_WIN))
       |\<in>| skippedUsers (createRows [ex_self, ex_bot, ex_alice] ex_controller)"
proof -
  have built: "addMembers (ex_panel Q_OS_WIN) ex_delegate = Some ex_controller"
    by code_simp
  have self: "isSelf (session_user (panel_channel (ex_panel Q_OS_WIN)))"
    by code_simp
  have alice: "shown_disabled (createRows [ex_self, ex_bot, ex_alice] ex_controller) ex_alice"
    by code_simp
  have bot: "skipped (createRows [ex_self, ex_bot, ex_alice] ex_controller) ex_bot"
    by code_simp
  from presentation_exclusive [OF built self, of "[ex_self, ex_bot, ex_alice]"] built self alice bot
  show ?thesis
    by blast
qed

text \<open>
  The controller that \<open>addMembers\<close> builds for the example panel has the user of the
  session both in its already-in set and in its skipped set.
\<close>

theorem alreadyIn_skipped_counterexample:
  "addMembers (ex_panel Q_OS_WIN) ex_delegate = Some ex_controller
   \<and> ex_self |\<in>| alreadyIn ex_controller
   \<and> ex_self |\<in>| skippedUsers ex_controller"
  by code_simp

section \<open>Submitting invitations\<close>

lemma selected_user_cases:
  "selected_user (PeerUser u) = (if isSelf u then Inl ExpectsFailed else Inr u)"
  "selected_user (PeerChat n) = Inl ExpectsFailed"
  "selected_user (PeerChannel n) = Inl ExpectsFailed"
  by (simp_all add: selected_user_def)

lemma selected_users_eq:
  "selected_users rows =
     (if \<forall>p\<in>set rows. isUser p \<and> \<not> peer_isSelf p
      then Inr (List.map_filter asUser rows) else Inl ExpectsFailed)"
proof (induction rows)
  case Nil
  show ?case
    by simp
next
  case (Cons p ps)
  show ?case
    by (cases p) (auto simp: Cons.IH selected_user_cases)
qed

lemma map_filter_asUser:
  "\<forall>p\<in>set rows. isUser p \<Longrightarrow> map PeerUser (List.map_filter asUser rows) = rows"
proof (induction rows)
  case Nil
  show ?case
    by simp
next
  case (Cons p ps)
  then show ?case
    by (cases p) simp_all
qed

text \<open>
  C6. \<open>inviteSelectedUsers\<close> ends in a failed \<open>Expects\<close> exactly when some selected
  row is not a user or is the viewer's own. When every selected row is a user other
  than the viewer, no assertion fails, \<open>inviteUsers\<close> is invoked once on the call with
  the users of the selected rows, in their order and none left out, and what it
  answers is returned as it is.
\<close>

theorem inviteSelectedUsers_result:
  "inviteSelectedUsers answer rows call =
     (if \<forall>p\<in>set rows. isUser p \<and> \<not> peer_isSelf p
      then Inr (answer (List.map_filter asUser rows),
                call\<lparr>invoked := invoked call @ [InviteUsers (List.map_filter asUser rows)]\<rparr>)
      else Inl ExpectsFailed)
   \<and> ((\<forall>p\<in>set rows. isUser p \<and> \<not> peer_isSelf p)
        \<longrightarrow> map PeerUser (List.map_filter asUser rows) = rows)"
  by (simp add: inviteSelectedUsers_def selected_users_eq inviteUsers_def map_filter_asUser)

theorem inviteSelectedUsers_result_witness:
  "isUser (PeerUser ex_alice) \<and> \<not> peer_isSelf (PeerUser ex_alice)
   \<and> inviteSelectedUsers ex_answer [PeerUser ex_alice] ex_handle
       = Inr (User ex_alice, ex_handle\<lparr>invoked := [InviteUsers [ex_alice]]\<rparr>)
   \<and> inviteSelectedUsers ex_answer [PeerUser ex_alice, PeerUser ex_self] ex_handle
       = Inl ExpectsFailed"
proof -
  have ok: "\<forall>p\<in>set [PeerUser ex_alice]. isUser p \<and> \<not> peer_isSelf p"
    by code_simp
  have bad: "\<not> (\<forall>p\<in>set [PeerUser ex_alice, PeerUser ex_self]. isUser p \<and> \<not> peer_isSelf p)"
    by code_simp
  have users: "List.map_filter asUser [PeerUser ex_alice] = [ex_alice]"
    by code_simp
  have answer: "ex_answer [ex_alice] = User ex_alice"
    by code_simp
  have log: "invoked ex_handle = []"
    by code_simp
  have 1: "inviteSelectedUsers ex_answer [PeerUser ex_alice] ex_handle
       = Inr (User ex_alice, ex_handle\<lparr>invoked := [InviteUsers [ex_alice]]\<rparr>)"
    using inviteSelectedUsers_result [of ex_answer "[PeerUser ex_alice]" ex_handle]
      ok users answer log by simp
  have 2: "inviteSelectedUsers ex_answer [PeerUser ex_alice, PeerUser ex_self] ex_handle
       = Inl ExpectsFailed"
    using inviteSelectedUsers_result [of ex_answer "[PeerUser ex_alice, PeerUser ex_self]" ex_handle]
      bad by simp
  from ok 1 2 show ?thesis
    by simp
qed

text \<open>
  C4. With a live call and a selection that passes the assertions, the invite button
  shows exactly one toast naming the user in bold when the answer is a single user,
  exactly one toast with the count \<open>n\<close> when the answer is a count \<open>n > 0\<close>, no toast
  when the count is zero or negative, and ends in \<open>Unexpected\<close> for an answer that is
  neither.
\<close>

theorem invite_button_toasts:
  assumes "target (weak b) = Some call"
    and "selected_users rows = Inr users"
  shows "map_sum id toasts (invite_button answer rows b) =
     (case answer users of
        User user \<Rightarrow> Inr (toasts b @ [Lng_group_call_invite_done_user (Bold (firstName user))])
      | Count n \<Rightarrow> Inr (toasts b @ (if n > 0 then [Lng_group_call_invite_done_many n] else []))
      | Valueless \<Rightarrow> Inl UnexpectedResult)"
  using assms
  by (simp add: invite_button_def inviteSelectedUsers_def inviteUsers_def closeBox_def
      Toast_Show_def split: InviteResult.splits)

theorem invite_button_toasts_witness:
  "target (weak ex_box) = Some \<lparr>call_id = 7, muted = Active\<rparr>
   \<and> selected_users [PeerUser ex_alice] = Inr [ex_alice]
   \<and> map_sum id toasts (invite_button ex_answer [PeerUser ex_alice] ex_box)
       = Inr [Lng_group_call_invite_done_user (Bold ''Alice'')]"
proof -
  have live: "target (weak ex_box) = Some \<lparr>call_id = 7, muted = Active\<rparr>"
    by code_simp
  have sel: "selected_users [PeerUser ex_alice] = Inr [ex_alice]"
    by code_simp
  have answer: "ex_answer [ex_alice] = User ex_alice"
    by code_simp
  have name: "firstName ex_alice = ''Alice''"
    by code_simp
  have none: "toasts ex_box = []"
    by code_simp
  from invite_button_toasts [OF live sel, of ex_answer] answer name none live sel
  show ?thesis
    by simp
qed

text \<open>
  C8. When the call behind the weak pointer is gone, the leave button and the invite
  button only close their box: the handle, with its log of invoked operations, is as
  before, no toast is shown, and neither the check box nor \<open>inviteUsers\<close> has any
  influence.
\<close>

theorem expired_call_noop:
  assumes "target (weak b) = None"
  shows "LeaveGroupCallBox_leave discard_box b = closeBox b
       \<and> invite_button answer rows b = Inr (closeBox b)
       \<and> weak (closeBox b) = weak b \<and> toasts (closeBox b) = toasts b"
  using assms
  by (simp add: LeaveGroupCallBox_leave_def invite_button_def closeBox_def Let_def)

theorem expired_call_noop_witness:
  "target (weak ex_box_expired) = None
   \<and> LeaveGroupCallBox_leave (Some True) ex_box_expired = closeBox ex_box_expired
   \<and> invite_button ex_answer [PeerUser ex_alice] ex_box_expired = Inr (closeBox ex_box_expired)
   \<and> invoked (weak (closeBox ex_box_expired)) = [Hangup]
   \<and> toasts (closeBox ex_box_expired) = []"
proof -
  have gone: "target (weak ex_box_expired) = None"
    by code_simp
  have log: "invoked (weak ex_box_expired) = [Hangup]"
    by code_simp
  have none: "toasts ex_box_expired = []"
    by code_simp
  from expired_call_noop [OF gone, of "Some True" ex_answer "[PeerUser ex_alice]"] gone log none
  show ?thesis
    by simp
qed

section \<open>The title of the panel\<close>

lemma computeMembersListTop_window_title [simp]:
  "computeMembersListTop (p\<lparr>window_title := t\<rparr>) = computeMembersListTop p"
  by (cases "platform p") (simp_all add: computeMembersListTop_def)

text \<open>
  C2. With a reserved rectangle \<open>R\<close>, \<open>refreshTitle\<close> leaves a label: the existing
  one, or the one it creates. With \<open>b\<close> its natural width and
  \<open>centeredX = (w - b) / 2\<close> (the quotient of C++, rounded towards zero), the label
  gets width \<open>b\<close> at \<open>centeredX\<close> when that lies inside the rectangle; otherwise the
  width of the rectangle at its left edge when the rectangle is narrower than \<open>b\<close>;
  otherwise width \<open>b\<close> at the left edge when \<open>centeredX\<close> is left of it; otherwise
  width \<open>b\<close> ending at the right edge. Its top is
  \<open>(membersListTop - labelHeight) / 2\<close> in every case. On a panel 800 wide, with a
  natural width of 200 and the reserved rectangle from 0 to 150, the label gets width
  150 at x = 0.
\<close>

theorem refreshTitle_placement:
  "title (refreshTitle_at (Some R) p) =
     (let l = (case title p of None \<Rightarrow> groupCallHeaderLabel p | Some l' \<Rightarrow> l');
          w = widget_width p;
          b = naturalWidth l;
          left = rect_x R;
          width = rect_width R;
          centeredX = cpp_div (w - b) 2;
          top = cpp_div (computeMembersListTop p - label_height l) 2
      in Some (l\<lparr>label_width :=
                    (if centeredX \<ge> left \<and> centeredX + b \<le> left + width then b
                     else if width < b then width
                     else if centeredX < left then b
                     else b),
                  label_left :=
                    (if centeredX \<ge> left \<and> centeredX + b \<le> left + width then centeredX
                     else if width < b then left
                     else if centeredX < left then left
                     else left + width - b),
                  label_top := top\<rparr>))
   \<and> widget_width (ex_panel Q_OS_WIN) = 800
   \<and> naturalWidth (groupCallHeaderLabel (ex_panel Q_OS_WIN)) = 200
   \<and> map_option rect_x (computeTitleRect (ex_panel Q_OS_WIN)) = Some 0
   \<and> map_option rect_width (computeTitleRect (ex_panel Q_OS_WIN)) = Some 150
   \<and> map_option label_width (title (refreshTitle (ex_panel Q_OS_WIN))) = Some 150
   \<and> map_option label_left (title (refreshTitle (ex_panel Q_OS_WIN))) = Some 0"
proof (intro conjI)
  show "title (refreshTitle_at (Some R) p) =
     (let l = (case title p of None \<Rightarrow> groupCallHeaderLabel p | Some l' \<Rightarrow> l');
          w = widget_width p;
          b = naturalWidth l;
          left = rect_x R;
          width = rect_width R;
          centeredX = cpp_div (w - b) 2;
          top = cpp_div (computeMembersListTop p - label_height l) 2
      in Some (l\<lparr>label_width :=
                    (if centeredX \<ge> left \<and> centeredX + b \<le> left + width then b
                     else if width < b then width
                     else if centeredX < left then b
                     else b),
                  label_left :=
                    (if centeredX \<ge> left \<and> centeredX + b \<le> left + width then centeredX
                     else if width < b then left
                     else if centeredX < left then left
                     else left + width - b),
                  label_top := top\<rparr>))"
    by (cases "title p")
       (simp_all add: refreshTitle_at_def Let_def moveToLeft_def resizeToWidth_def)
qed (code_simp+)

lemma refreshTitle_lng [simp]:
  "lng_group_call_title_now (refreshTitle p) = lng_group_call_title_now p"
  by (simp add: refreshTitle_def refreshTitle_at_def Let_def split: option.splits prod.splits)

lemma refreshTitle_platform [simp]: "platform (refreshTitle p) = platform p"
  by (simp add: refreshTitle_def refreshTitle_at_def Let_def split: option.splits prod.splits)

lemma computeTitleRect_refreshTitle [simp]:
  "computeTitleRect (refreshTitle p) = None \<longleftrightarrow> computeTitleRect p = None"
  by (simp add: computeTitleRect_def split: Platform.splits)

lemma refreshTitle_no_rect:
  assumes "computeTitleRect p = None"
  shows "title (refreshTitle p) = None"
    and "title p \<noteq> None \<or> window_title p = lng_group_call_title_now p
          \<Longrightarrow> window_title (refreshTitle p) = lng_group_call_title_now p"
  using assms by (auto simp: refreshTitle_def refreshTitle_at_def split: option.splits)

lemma initWindow_fields [simp]:
  "computeTitleRect (initWindow p) = computeTitleRect p"
  "lng_group_call_title_now (initWindow p) = lng_group_call_title_now p"
  "title (initWindow p) = title p"
  by (cases "platform p"; simp add: initWindow_def computeTitleRect_def)+

lemma initWindow_no_rect:
  "computeTitleRect p = None \<Longrightarrow> window_title (initWindow p) = lng_group_call_title_now p"
  by (simp add: initWindow_def)

lemma passes_no_rect:
  assumes "computeTitleRect p = None"
  shows "computeTitleRect ((refreshTitle ^^ n) (initWindow p)) = None
       \<and> lng_group_call_title_now ((refreshTitle ^^ n) (initWindow p))
           = lng_group_call_title_now p
       \<and> window_title ((refreshTitle ^^ n) (initWindow p)) = lng_group_call_title_now p"
proof (induction n)
  case 0
  then show ?case
    using assms by (simp add: initWindow_no_rect)
next
  case (Suc n)
  then show ?case
    using refreshTitle_no_rect(2) [of "(refreshTitle ^^ n) (initWindow p)"] by simp
qed

text \<open>
  C7. On a platform where \<open>computeTitleRect()\<close> has no rectangle, after \<open>initWindow\<close>
  and any positive number of layout passes the panel has no title label and the native
  title of the window is the translated title; a single pass removes whatever label
  exists, and where it removes one it sets the native title to the translated title.
\<close>

theorem refreshTitle_without_rect:
  assumes "computeTitleRect p = None"
  shows "title ((refreshTitle ^^ Suc n) (initWindow p)) = None
       \<and> window_title ((refreshTitle ^^ Suc n) (initWindow p)) = lng_group_call_title_now p
       \<and> title (refreshTitle p) = None
       \<and> (title p \<noteq> None \<longrightarrow> window_title (refreshTitle p) = lng_group_call_title_now p)"
  using passes_no_rect [OF assms, of "Suc n"] passes_no_rect [OF assms, of n]
    refreshTitle_no_rect(1) [of "(refreshTitle ^^ n) (initWindow p)"]
    refreshTitle_no_rect [OF assms]
  by simp

theorem refreshTitle_without_rect_witness:
  "computeTitleRect ex_labelled_panel = None
   \<and> title ex_labelled_panel \<noteq> None
   \<and> window_title ex_labelled_panel = '' ''
   \<and> title ((refreshTitle ^^ Suc 1) (initWindow ex_labelled_panel)) = None
   \<and> window_title ((refreshTitle ^^ Suc 1) (initWindow ex_labelled_panel)) = ''Voice Chat''
   \<and> title (refreshTitle ex_labelled_panel) = None
   \<and> window_title (refreshTitle ex_labelled_panel) = ''Voice Chat''"
proof -
  have norect: "computeTitleRect ex_labelled_panel = None"
    by code_simp
  have label: "title ex_labelled_panel \<noteq> None"
    by code_simp
  have blank: "window_title ex_labelled_panel = '' ''"
    by code_simp
  have translated: "lng_group_call_title_now ex_labelled_panel = ''Voice Chat''"
    by code_simp
  from refreshTitle_without_rect [OF norect, of 1] norect label blank translated
  show ?thesis
    by simp
qed

section \<open>The mute button\<close>

text \<open>
  C10. A left click on the mute button changes nothing when the panel has no call or
  the call is force-muted; otherwise the call becomes muted when it was active and
  active when it was muted.
\<close>

theorem mute_clicked_left:
  "map_option muted (target (panel_call (mute_clicked LeftButton p))) =
     (case target (panel_call p) of
        None \<Rightarrow> None
      | Some call \<Rightarrow> Some (case muted call of
                             ForceMuted \<Rightarrow> ForceMuted
                           | Active \<Rightarrow> Muted
                           | Muted \<Rightarrow> Active))
   \<and> (target (panel_call p) = None
        \<or> map_option muted (target (panel_call p)) = Some ForceMuted
        \<longrightarrow> mute_clicked LeftButton p = p)"
  by (auto simp: mute_clicked_def setMuted_def split: option.splits MuteState.splits)

theorem mute_clicked_left_witness:
  "map_option muted (target (panel_call (ex_panel Q_OS_WIN))) = Some Active
   \<and> map_option muted (target (panel_call (mute_clicked LeftButton (ex_panel Q_OS_WIN))))
       = Some Muted
   \<and> target (panel_call ((ex_panel Q_OS_WIN)\<lparr>panel_call := ex_expired\<rparr>)) = None
   \<and> mute_clicked LeftButton ((ex_panel Q_OS_WIN)\<lparr>panel_call := ex_expired\<rparr>)
       = (ex_panel Q_OS_WIN)\<lparr>panel_call := ex_expired\<rparr>"
proof -
  have live: "target (panel_call (ex_panel Q_OS_WIN)) = Some \<lparr>call_id = 7, muted = Active\<rparr>"
    by code_simp
  have gone: "target (panel_call ((ex_panel Q_OS_WIN)\<lparr>panel_call := ex_expired\<rparr>)) = None"
    by code_simp
  from mute_clicked_left [of "ex_panel Q_OS_WIN"] live
  have 1: "map_option muted (target (panel_call (mute_clicked LeftButton (ex_panel Q_OS_WIN))))
       = Some Muted"
    by simp
  from mute_clicked_left [of "(ex_panel Q_OS_WIN)\<lparr>panel_call := ex_expired\<rparr>"] gone
  have 2: "mute_clicked LeftButton ((ex_panel Q_OS_WIN)\<lparr>panel_call := ex_expired\<rparr>)
       = (ex_panel Q_OS_WIN)\<lparr>panel_call := ex_expired\<rparr>"
    by blast
  from live gone 1 2 show ?thesis
    by simp
qed

end
